theory Spec2Isabelle
  imports Complex_Main
begin

section \<open>JavaScript values used by \<open>src/lib/core.js\<close>\<close>

text \<open>
  Strings are lists of code units (\<open>string\<close>, the code units below 256). A JavaScript
  Number is modelled as \<open>NaN\<close> or a real number, and \<open>NaN\<close> is kept because \<open>parseInt\<close>
  produces it and every operation of the source propagates it. The colour arithmetic and
  \<open>contrastRatio\<close> are read in exact arithmetic, without the rounding of IEEE doubles. The
  audit's entry is read in double arithmetic, because there the rounding decides the value
  that is reported. Property values that the source reads from scales and token sets are
  strings or \<open>undefined\<close>.
\<close>

datatype error = TypeError | AdapterError

datatype jsnum = NaN | Num real

datatype jsval = Undefined | Str string

text \<open>
  A plain object is an association list with distinct keys. Reading a missing property
  gives \<open>undefined\<close>; an assignment replaces the value of an existing key and appends a
  new one.
\<close>

type_synonym 'v obj = "(string \<times> 'v) list"

definition obj_get :: "jsval obj \<Rightarrow> string \<Rightarrow> jsval" where
  "obj_get ob k = (case map_of ob k of None \<Rightarrow> Undefined | Some v \<Rightarrow> v)"

fun obj_set :: "'v obj \<Rightarrow> string \<Rightarrow> 'v \<Rightarrow> 'v obj" where
  "obj_set [] k v = [(k, v)]"
| "obj_set ((k', v') # ob) k v = (if k' = k then (k, v) # ob else (k', v') # obj_set ob k v)"

definition keys :: "'v obj \<Rightarrow> string list" where
  "keys ob = map fst ob"

text \<open>Truthiness of a property value: \<open>undefined\<close> and the empty string are falsy.\<close>

fun truthy :: "jsval \<Rightarrow> bool" where
  "truthy Undefined = False"
| "truthy (Str s) = (s \<noteq> [])"

subsection \<open>Number operations\<close>

fun num_op :: "(real \<Rightarrow> real \<Rightarrow> real) \<Rightarrow> jsnum \<Rightarrow> jsnum \<Rightarrow> jsnum" where
  "num_op f (Num a) (Num b) = Num (f a b)"
| "num_op f _ _ = NaN"

fun num_ge :: "jsnum \<Rightarrow> jsnum \<Rightarrow> bool" where
  "num_ge (Num a) (Num b) = (b \<le> a)"
| "num_ge _ _ = False"

text \<open>\<open>Math.round\<close>: the nearest integer, a tie going up.\<close>

fun Math_round :: "jsnum \<Rightarrow> jsnum" where
  "Math_round (Num a) = Num (of_int \<lfloor>a + 1 / 2\<rfloor>)"
| "Math_round NaN = NaN"

text \<open>The remainder operator \<open>%\<close> truncates the quotient towards zero.\<close>

definition trunc :: "real \<Rightarrow> int" where
  "trunc x = (if 0 \<le> x then \<lfloor>x\<rfloor> else \<lceil>x\<rceil>)"

definition js_rem :: "real \<Rightarrow> real \<Rightarrow> real" where
  "js_rem x y = x - y * of_int (trunc (x / y))"

subsection \<open>Double arithmetic\<close>

text \<open>
  An IEEE 754 double has a significand of 53 bits, and \<open>*\<close> and \<open>/\<close> return the double
  nearest to the exact result, a tie going to the even significand. \<open>rne\<close> is the nearest
  integer with ties to even; \<open>round64\<close> rounds a real to the nearest double of its binade.
  Overflow and subnormal numbers are not modelled: a contrast ratio lies between \<open>1\<close> and
  \<open>24\<close>, so the products and quotients of the audit lie between \<open>1\<close> and \<open>2400\<close>.
\<close>

definition rne :: "real \<Rightarrow> int" where
  "rne y =
     (let n = \<lfloor>y\<rfloor>; f = y - of_int n
      in if f < 1 / 2 then n else if 1 / 2 < f then n + 1 else if even n then n else n + 1)"

definition round64 :: "real \<Rightarrow> real" where
  "round64 x =
     (if x = 0 then 0
      else (let u = 2 powr (of_int \<lfloor>log 2 \<bar>x\<bar>\<rfloor> - 52) in u * of_int (rne (x / u))))"

definition double_mul :: "jsnum \<Rightarrow> jsnum \<Rightarrow> jsnum" where
  "double_mul = num_op (\<lambda>a b. round64 (a * b))"

definition double_div :: "jsnum \<Rightarrow> jsnum \<Rightarrow> jsnum" where
  "double_div = num_op (\<lambda>a b. round64 (a / b))"

subsection \<open>\<open>String.prototype.slice\<close> and \<open>parseInt(_, 16)\<close>\<close>

definition slice :: "nat \<Rightarrow> nat \<Rightarrow> string \<Rightarrow> string" where
  "slice a b s = take (b - a) (drop a s)"

definition is_ws :: "char \<Rightarrow> bool" where
  "is_ws ch = (of_char ch \<in> {9, 10, 11, 12, 13, 32, 160 :: nat})"

definition digit16 :: "char \<Rightarrow> nat option" where
  "digit16 ch =
     (let n = of_char ch :: nat in
      if 48 \<le> n \<and> n \<le> 57 then Some (n - 48)
      else if 97 \<le> n \<and> n \<le> 102 then Some (n - 87)
      else if 65 \<le> n \<and> n \<le> 70 then Some (n - 55)
      else None)"

fun digits16 :: "string \<Rightarrow> nat list" where
  "digits16 [] = []"
| "digits16 (ch # cs) = (case digit16 ch of None \<Rightarrow> [] | Some d \<Rightarrow> d # digits16 cs)"

fun strip_sign :: "string \<Rightarrow> int \<times> string" where
  "strip_sign [] = (1, [])"
| "strip_sign (ch # cs) =
     (if ch = CHR ''-'' then (- 1, cs) else if ch = CHR ''+'' then (1, cs) else (1, ch # cs))"

fun strip_0x :: "string \<Rightarrow> string" where
  "strip_0x (a # b # cs) =
     (if a = CHR ''0'' \<and> (b = CHR ''x'' \<or> b = CHR ''X'') then cs else a # b # cs)"
| "strip_0x cs = cs"

text \<open>
  \<open>parseInt(s, 16)\<close>: leading white space, a sign and a \<open>0x\<close> prefix are skipped, the
  longest run of hexadecimal digits is read, and no digit at all gives \<open>NaN\<close> (\<open>None\<close>).
\<close>

definition parseInt16 :: "string \<Rightarrow> int option" where
  "parseInt16 s =
     (case strip_sign (dropWhile is_ws s) of
        (sign, t) \<Rightarrow>
          (let ds = digits16 (strip_0x t)
           in if ds = [] then None
              else Some (sign * int (foldl (\<lambda>acc d. 16 * acc + d) 0 ds))))"

section \<open>WCAG contrast\<close>

definition toLinear :: "jsnum \<Rightarrow> jsnum" where
  "toLinear c =
     (case c of
        NaN \<Rightarrow> NaN
      | Num x \<Rightarrow> if x \<le> 0.03928 then Num (x / 12.92) else Num (((x + 0.055) / 1.055) powr 2.4))"

definition channel :: "string \<Rightarrow> jsnum" where
  "channel s = (case parseInt16 s of None \<Rightarrow> NaN | Some n \<Rightarrow> Num (of_int n / 255))"

definition relativeLuminance :: "string \<Rightarrow> jsnum" where
  "relativeLuminance hex =
     (let r = channel (slice 1 3 hex);
          g = channel (slice 3 5 hex);
          b = channel (slice 5 7 hex)
      in num_op (+) (num_op (+) (num_op (*) (Num 0.2126) (toLinear r))
                                (num_op (*) (Num 0.7152) (toLinear g)))
                    (num_op (*) (Num 0.0722) (toLinear b)))"

definition contrastRatio :: "string \<Rightarrow> string \<Rightarrow> jsnum" where
  "contrastRatio hex1 hex2 =
     (let l1 = relativeLuminance hex1;
          l2 = relativeLuminance hex2
      in num_op (/) (num_op (+) (num_op max l1 l2) (Num 0.05))
                    (num_op (+) (num_op min l1 l2) (Num 0.05)))"

text \<open>
  A divisor of the source is never zero, so division is the division of the reals:
  \<open>luminance_lower_bound\<close> below shows that a luminance is above \<open>- 0.05\<close>.
\<close>

section \<open>The colour-science collaborators\<close>

text \<open>
  \<open>culori\<close> and \<open>dittotones\<close> are external packages, taken as parameters. A colour
  object is the perceptual triple in \<open>oklch\<close> mode, its hue absent for an achromatic
  colour. \<open>oklch_parse\<close> is \<open>oklch(parse(hex))\<close>, \<open>None\<close> standing for \<open>undefined\<close>;
  \<open>formatHex\<close> receives a colour or \<open>undefined\<close>; \<open>ditto_scale\<close> is
  \<open>ditto.generate(seed).scale\<close>, an object from shade keys to colours. Its \<open>Inl\<close> is a
  throw of \<open>generate\<close>, or a result without a scale, on which \<open>scaleToHexMap\<close> throws.
\<close>

record oklch =
  ok_l :: real
  ok_c :: real
  ok_h :: "real option"

record adapter =
  oklch_parse :: "string \<Rightarrow> oklch option"
  formatHex :: "oklch option \<Rightarrow> jsval"
  ditto_scale :: "jsval \<Rightarrow> error + oklch obj"

section \<open>Scale generation\<close>

definition SHADE_KEYS :: "string list" where
  "SHADE_KEYS = [''50'', ''100'', ''200'', ''300'', ''400'', ''500'', ''600'', ''700'', ''800'',
     ''900'', ''950'']"

definition hueToHex :: "adapter \<Rightarrow> real option \<Rightarrow> jsval" where
  "hueToHex A hue = formatHex A (Some \<lparr>ok_l = 0.55, ok_c = 0.2, ok_h = hue\<rparr>)"

definition scaleToHexMap :: "adapter \<Rightarrow> oklch obj \<Rightarrow> jsval obj" where
  "scaleToHexMap A scale =
     fold (\<lambda>k out. obj_set out k (formatHex A (map_of scale k))) SHADE_KEYS []"

definition generateColorScale :: "adapter \<Rightarrow> string \<Rightarrow> error + jsval obj" where
  "generateColorScale A primaryHex =
     (case ditto_scale A (Str primaryHex) of
        Inl e \<Rightarrow> Inl e
      | Inr sc \<Rightarrow> Inr (scaleToHexMap A sc))"

definition generateNeutralScale :: "adapter \<Rightarrow> string \<Rightarrow> error + jsval obj" where
  "generateNeutralScale A primaryHex =
     (case oklch_parse A primaryHex of
        None \<Rightarrow> Inl TypeError
      | Some p \<Rightarrow>
          (let neutralHex =
                 formatHex A (Some \<lparr>ok_l = ok_l p, ok_c = min (ok_c p * 0.12) 0.02, ok_h = ok_h p\<rparr>)
           in case ditto_scale A neutralHex of
                Inl e \<Rightarrow> Inl e
              | Inr sc \<Rightarrow> Inr (scaleToHexMap A sc)))"

text \<open>The result \<open>Inr None\<close> is \<open>null\<close>: no secondary scale.\<close>

definition generateSecondaryScale :: "adapter \<Rightarrow> string \<Rightarrow> string \<Rightarrow> error + jsval obj option" where
  "generateSecondaryScale A primaryHex scheme =
     (if scheme = ''single'' then Inr None
      else case oklch_parse A primaryHex of
        None \<Rightarrow> Inl TypeError
      | Some p \<Rightarrow>
          (let shift = (if scheme = ''analogous'' then 40 else 180);
               newHue = js_rem ((case ok_h p of None \<Rightarrow> 0 | Some x \<Rightarrow> x) + shift) 360;
               secHex = formatHex A (Some \<lparr>ok_l = ok_l p, ok_c = ok_c p * 0.85, ok_h = Some newHue\<rparr>)
           in case ditto_scale A secHex of
                Inl e \<Rightarrow> Inl e
              | Inr sc \<Rightarrow> Inr (Some (scaleToHexMap A sc))))"

section \<open>Role mapping\<close>

record role_def =
  source :: string
  shade :: string

definition LIGHT_ROLES :: "(string \<times> role_def) list" where
  "LIGHT_ROLES =
     [(''bg'', \<lparr>source = ''neutral'', shade = ''50''\<rparr>),
      (''surface'', \<lparr>source = ''neutral'', shade = ''100''\<rparr>),
      (''border'', \<lparr>source = ''neutral'', shade = ''200''\<rparr>),
      (''text-muted'', \<lparr>source = ''neutral'', shade = ''500''\<rparr>),
      (''text'', \<lparr>source = ''neutral'', shade = ''900''\<rparr>),
      (''primary'', \<lparr>source = ''color'', shade = ''500''\<rparr>),
      (''secondary'', \<lparr>source = ''accent'', shade = ''200''\<rparr>)]"

definition DARK_ROLES :: "(string \<times> role_def) list" where
  "DARK_ROLES =
     [(''bg'', \<lparr>source = ''neutral'', shade = ''900''\<rparr>),
      (''surface'', \<lparr>source = ''neutral'', shade = ''800''\<rparr>),
      (''border'', \<lparr>source = ''neutral'', shade = ''700''\<rparr>),
      (''text-muted'', \<lparr>source = ''neutral'', shade = ''400''\<rparr>),
      (''text'', \<lparr>source = ''neutral'', shade = ''50''\<rparr>),
      (''primary'', \<lparr>source = ''color'', shade = ''600''\<rparr>),
      (''primary-text'', \<lparr>source = ''color'', shade = ''400''\<rparr>),
      (''secondary'', \<lparr>source = ''accent'', shade = ''800''\<rparr>)]"

text \<open>
  A scale argument is an object or \<open>null\<close> (\<open>None\<close>); reading a property of \<open>null\<close>
  throws a \<open>TypeError\<close>.
\<close>

definition get_prop :: "jsval obj option \<Rightarrow> string \<Rightarrow> error + jsval" where
  "get_prop ob k = (case ob of None \<Rightarrow> Inl TypeError | Some b \<Rightarrow> Inr (obj_get b k))"

fun resolve_loop ::
  "jsval obj option \<Rightarrow> jsval obj option \<Rightarrow> jsval obj option \<Rightarrow> (string \<times> role_def) list
    \<Rightarrow> jsval obj \<Rightarrow> error + jsval obj" where
  "resolve_loop colorScale neutralScale accentScale [] tokens = Inr tokens"
| "resolve_loop colorScale neutralScale accentScale ((role, d) # rest) tokens =
     (case (if source d = ''neutral'' then get_prop neutralScale (shade d)
            else if source d = ''accent'' then get_prop accentScale (shade d)
            else get_prop colorScale (shade d)) of
        Inl e \<Rightarrow> Inl e
      | Inr v \<Rightarrow> resolve_loop colorScale neutralScale accentScale rest (obj_set tokens role v))"

definition resolveTokens ::
  "jsval obj option \<Rightarrow> jsval obj option \<Rightarrow> jsval obj option \<Rightarrow> bool \<Rightarrow> error + jsval obj" where
  "resolveTokens colorScale neutralScale secondaryScale dark =
     (let roles = (if dark then DARK_ROLES else LIGHT_ROLES);
          accentScale = (case secondaryScale of None \<Rightarrow> colorScale | Some s \<Rightarrow> Some s)
      in resolve_loop colorScale neutralScale accentScale roles [])"

section \<open>The WCAG audit\<close>

record contrast_entry =
  ratio :: jsnum
  pass :: bool

definition pairs :: "jsval obj \<Rightarrow> (string \<times> string) list" where
  "pairs tokens =
     [(''text'', ''bg''), (''text'', ''surface''), (''text-muted'', ''bg''),
      (''text-muted'', ''surface''), (''primary'', ''bg''), (''primary'', ''surface'')]
     @ (if truthy (obj_get tokens ''primary-text'')
        then [(''primary-text'', ''bg''), (''primary-text'', ''surface'')] else [])"

text \<open>
  The object literal of the loop body, for the double \<open>rat\<close> that the local \<open>ratio\<close> holds:
  \<open>{ ratio: Math.round(ratio * 100) / 100, pass: ratio >= 4.5 }\<close>. The product and the
  quotient are rounded to doubles; \<open>Math.round\<close> and the comparison are exact.
\<close>

definition entry_of :: "jsnum \<Rightarrow> contrast_entry" where
  "entry_of rat =
     \<lparr>ratio = double_div (Math_round (double_mul rat (Num 100))) (Num 100),
      pass = num_ge rat (Num 4.5)\<rparr>"

text \<open>
  The double that the call \<open>contrastRatio(tokens[fg], tokens[bg])\<close> returns is close to the
  exact \<open>contrastRatio\<close> above but need not equal it: every operation rounds, and
  \<open>Math.pow\<close> is only approximated by an implementation. The audit therefore takes the
  function from the two hex strings to the returned double as its parameter \<open>cr\<close>; with
  \<open>contrastRatio\<close> for \<open>cr\<close> it is the audit in exact arithmetic. The call reads
  \<open>hex.slice\<close> on its arguments, which throws a \<open>TypeError\<close> when a token is \<open>undefined\<close>.
\<close>

fun wcag_loop ::
  "(string \<Rightarrow> string \<Rightarrow> jsnum) \<Rightarrow> jsval obj \<Rightarrow> (string \<times> string) list \<Rightarrow> contrast_entry obj
    \<Rightarrow> error + contrast_entry obj" where
  "wcag_loop cr tokens [] wcag = Inr wcag"
| "wcag_loop cr tokens ((fg, bg) # rest) wcag =
     (case obj_get tokens fg of
        Undefined \<Rightarrow> Inl TypeError
      | Str hex1 \<Rightarrow>
          (case obj_get tokens bg of
             Undefined \<Rightarrow> Inl TypeError
           | Str hex2 \<Rightarrow>
               wcag_loop cr tokens rest
                 (obj_set wcag (fg @ ''/'' @ bg) (entry_of (cr hex1 hex2)))))"

definition checkWCAG ::
  "(string \<Rightarrow> string \<Rightarrow> jsnum) \<Rightarrow> jsval obj \<Rightarrow> error + contrast_entry obj" where
  "checkWCAG cr tokens = wcag_loop cr tokens (pairs tokens) []"

section \<open>The specification's vocabulary\<close>

text \<open>
  The definitions of this section follow the words of the specification, not the source:
  they are what the source is compared with.
\<close>

subsection \<open>Hex colours\<close>

definition is_hexdigit :: "char \<Rightarrow> bool" where
  "is_hexdigit ch = (ch \<in> set ''0123456789abcdefABCDEF'')"

text \<open>A hex colour \<open>#rrggbb\<close>, in either case.\<close>

definition is_hex6 :: "string \<Rightarrow> bool" where
  "is_hex6 s =
     (case s of
        [] \<Rightarrow> False
      | ch # ds \<Rightarrow> ch = CHR ''#'' \<and> length ds = 6 \<and> list_all is_hexdigit ds)"

definition hex_value :: "char \<Rightarrow> nat" where
  "hex_value ch =
     (case map_of
        [(CHR ''0'', 0), (CHR ''1'', 1), (CHR ''2'', 2), (CHR ''3'', 3), (CHR ''4'', 4),
         (CHR ''5'', 5), (CHR ''6'', 6), (CHR ''7'', 7), (CHR ''8'', 8), (CHR ''9'', 9),
         (CHR ''a'', 10), (CHR ''b'', 11), (CHR ''c'', 12), (CHR ''d'', 13), (CHR ''e'', 14),
         (CHR ''f'', 15), (CHR ''A'', 10), (CHR ''B'', 11), (CHR ''C'', 12), (CHR ''D'', 13),
         (CHR ''E'', 14), (CHR ''F'', 15)] ch of
        None \<Rightarrow> 0
      | Some v \<Rightarrow> v)"

subsection \<open>WCAG 2.x relative luminance and contrast, as the specification words them\<close>

definition spec_decode :: "char \<Rightarrow> char \<Rightarrow> real" where
  "spec_decode a b = real (16 * hex_value a + hex_value b) / 255"

definition spec_linear :: "real \<Rightarrow> real" where
  "spec_linear x = (if x \<le> 0.03928 then x / 12.92 else ((x + 0.055) / 1.055) powr 2.4)"

definition spec_luminance :: "string \<Rightarrow> real" where
  "spec_luminance s =
     (case s of
        [_, r1, r2, g1, g2, b1, b2] \<Rightarrow>
          0.2126 * spec_linear (spec_decode r1 r2) + 0.7152 * spec_linear (spec_decode g1 g2)
          + 0.0722 * spec_linear (spec_decode b1 b2)
      | _ \<Rightarrow> 0)"

definition spec_contrast :: "real \<Rightarrow> real \<Rightarrow> real" where
  "spec_contrast L1 L2 = (max L1 L2 + 0.05) / (min L1 L2 + 0.05)"

subsection \<open>The secondary seed, as the specification words it\<close>





subsection \<open>Tonal scales, the collaborators' contract, token sets\<close>

text \<open>The eleven shade keys of the data model, written out.\<close>

definition spec_shade_keys :: "string list" where
  "spec_shade_keys =
     [''50'', ''100'', ''200'', ''300'', ''400'', ''500'', ''600'', ''700'', ''800'', ''900'',
      ''950'']"

text \<open>
  A tonal scale: exactly these eleven keys, no more and no fewer, each bound to a hex
  colour.
\<close>

definition hex_scale :: "jsval obj \<Rightarrow> bool" where
  "hex_scale s =
     (keys s = [''50'', ''100'', ''200'', ''300'', ''400'', ''500'', ''600'', ''700'', ''800'',
                ''900'', ''950'']
      \<and> length s = 11
      \<and> list_all (\<lambda>(k, v). case v of Undefined \<Rightarrow> False | Str x \<Rightarrow> is_hex6 x) s)"

text \<open>
  What the specification requires of the colour-science collaborators: a hex colour
  parses, a colour formats to a hex colour, and a hex seed yields a scale with an entry
  for every shade key.
\<close>

definition adapter_ok :: "adapter \<Rightarrow> bool" where
  "adapter_ok A =
     ((\<forall>s. is_hex6 s \<longrightarrow> oklch_parse A s \<noteq> None)
      \<and> (\<forall>col. \<exists>s. formatHex A (Some col) = Str s \<and> is_hex6 s)
      \<and> (\<forall>s. is_hex6 s \<longrightarrow>
            (\<exists>sc. ditto_scale A (Str s) = Inr sc
                  \<and> (\<forall>k \<in> set spec_shade_keys. map_of sc k \<noteq> None))))"

text \<open>
  The data model's token set: every role is bound to a hex colour, and the roles common
  to both role tables are present.
\<close>

definition token_set :: "jsval obj \<Rightarrow> bool" where
  "token_set tokens =
     (list_all (\<lambda>(role, v). case v of Undefined \<Rightarrow> False | Str x \<Rightarrow> is_hex6 x) tokens
      \<and> list_all (\<lambda>role. role \<in> set (keys tokens))
           [''bg'', ''surface'', ''border'', ''text-muted'', ''text'', ''primary'', ''secondary''])"

text \<open>The scale that a role definition reads, for scale arguments that are objects.\<close>

definition scale_for :: "jsval obj \<Rightarrow> jsval obj \<Rightarrow> jsval obj option \<Rightarrow> role_def \<Rightarrow> jsval obj" where
  "scale_for cs ns ss d =
     (if source d = ''neutral'' then ns
      else if source d = ''accent'' then (case ss of None \<Rightarrow> cs | Some s \<Rightarrow> s)
      else cs)"

section \<open>Sample inputs\<close>

text \<open>
  A deterministic stand-in for the collaborators: every hex colour parses to one chromatic
  colour, except the mid grey, which is achromatic; a colour formats to one of two hex
  colours; every hex seed yields the same complete scale.
\<close>

definition sample_adapter :: adapter where
  "sample_adapter =
     \<lparr>oklch_parse = (\<lambda>s. if \<not> is_hex6 s then None
                      else if s = ''#808080'' then Some \<lparr>ok_l = 0.6, ok_c = 0, ok_h = None\<rparr>
                      else Some \<lparr>ok_l = 0.5, ok_c = 0.2, ok_h = Some 200\<rparr>),
      formatHex = (\<lambda>col. case col of None \<Rightarrow> Undefined
                     | Some x \<Rightarrow> Str (if ok_c x \<le> 0.02 then ''#808080'' else ''#3366cc'')),
      ditto_scale = (\<lambda>v. case v of Undefined \<Rightarrow> Inl AdapterError
                     | Str s \<Rightarrow> if is_hex6 s
                         then Inr (map (\<lambda>k. (k, \<lparr>ok_l = 0.5, ok_c = 0.1, ok_h = None\<rparr>)) SHADE_KEYS)
                         else Inl AdapterError)\<rparr>"

text \<open>
  A stand-in whose output shows the hue of the seed: the primary has the hue \<open>200\<close>, a seed
  of hue \<open>20\<close> formats to \<open>#cc6633\<close> and one of hue \<open>240\<close> to \<open>#3333cc\<close>, and the scale
  of a seed repeats the seed's hue in every shade.
\<close>

definition hue_adapter :: adapter where
  "hue_adapter =
     \<lparr>oklch_parse = (\<lambda>s. if is_hex6 s then Some \<lparr>ok_l = 0.5, ok_c = 0.2, ok_h = Some 200\<rparr>
                      else None),
      formatHex = (\<lambda>col. case col of None \<Rightarrow> Undefined
                     | Some x \<Rightarrow> Str (if ok_h x = Some 20 then ''#cc6633''
                                     else if ok_h x = Some 240 then ''#3333cc'' else ''#808080'')),
      ditto_scale = (\<lambda>v. case v of Undefined \<Rightarrow> Inl AdapterError
                     | Str s \<Rightarrow> if is_hex6 s
                         then Inr (map (\<lambda>k. (k, \<lparr>ok_l = 0.5, ok_c = 0.1,
                                      ok_h = (if s = ''#cc6633'' then Some 20
                                              else if s = ''#3333cc'' then Some 240 else None)\<rparr>))
                                   SHADE_KEYS)
                         else Inl AdapterError)\<rparr>"

definition sample_color :: "jsval obj" where
  "sample_color =
     [(''50'', Str ''#eef2ff''), (''100'', Str ''#e0e7ff''), (''200'', Str ''#c7d2fe''),
      (''300'', Str ''#a5b4fc''), (''400'', Str ''#818cf8''), (''500'', Str ''#6366f1''),
      (''600'', Str ''#4f46e5''), (''700'', Str ''#4338ca''), (''800'', Str ''#3730a3''),
      (''900'', Str ''#312e81''), (''950'', Str ''#1e1b4b'')]"

definition sample_neutral :: "jsval obj" where
  "sample_neutral =
     [(''50'', Str ''#f8fafc''), (''100'', Str ''#f1f5f9''), (''200'', Str ''#e2e8f0''),
      (''300'', Str ''#cbd5e1''), (''400'', Str ''#94a3b8''), (''500'', Str ''#64748b''),
      (''600'', Str ''#475569''), (''700'', Str ''#334155''), (''800'', Str ''#1e293b''),
      (''900'', Str ''#0f172a''), (''950'', Str ''#020617'')]"

text \<open>The neutral scale without its shade \<open>50\<close>.\<close>

definition sample_neutral_no50 :: "jsval obj" where
  "sample_neutral_no50 =
     [(''100'', Str ''#f1f5f9''), (''200'', Str ''#e2e8f0''),
      (''300'', Str ''#cbd5e1''), (''400'', Str ''#94a3b8''), (''500'', Str ''#64748b''),
      (''600'', Str ''#475569''), (''700'', Str ''#334155''), (''800'', Str ''#1e293b''),
      (''900'', Str ''#0f172a''), (''950'', Str ''#020617'')]"

text \<open>
  A light token set whose text colour \<open>#ef0000\<close> has a contrast ratio of about \<open>4.4966\<close>
  against its white background, and a dark token set.
\<close>

definition sample_tokens_light :: "jsval obj" where
  "sample_tokens_light =
     [(''bg'', Str ''#ffffff''), (''surface'', Str ''#ffffff''), (''border'', Str ''#e2e8f0''),
      (''text-muted'', Str ''#ef0000''), (''text'', Str ''#ef0000''),
      (''primary'', Str ''#ef0000''), (''secondary'', Str ''#c7d2fe'')]"

definition sample_tokens_dark :: "jsval obj" where
  "sample_tokens_dark =
     [(''bg'', Str ''#0f172a''), (''surface'', Str ''#1e293b''), (''border'', Str ''#334155''),
      (''text-muted'', Str ''#94a3b8''), (''text'', Str ''#f8fafc''),
      (''primary'', Str ''#4f46e5''), (''primary-text'', Str ''#818cf8''),
      (''secondary'', Str ''#3730a3'')]"

section \<open>Auxiliary facts\<close>

subsection \<open>Objects\<close>

lemma obj_get_absent: "k \<notin> set (keys ob) \<Longrightarrow> obj_get ob k = Undefined"
  by (simp add: obj_get_def keys_def map_of_eq_None_iff[THEN iffD2])

lemma set_obj_set: "set (obj_set ob k v) \<subseteq> insert (k, v) (set ob)"
  by (induction ob) (auto split: if_splits)

lemma num_op_commute:
  assumes "\<And>a b. f a b = f b a"
  shows "num_op f x y = num_op f y x"
  using assms by (cases x; cases y) simp_all

subsection \<open>Decoding a hex colour with \<open>parseInt\<close>\<close>

lemma hexdigit_cases:
  assumes "is_hexdigit ch"
  shows "digit16 ch = Some (hex_value ch)" and "\<not> is_ws ch" and "ch \<noteq> CHR ''-''"
    and "ch \<noteq> CHR ''+''" and "ch \<noteq> CHR ''x''" and "ch \<noteq> CHR ''X''"
  using assms unfolding is_hexdigit_def
  by (auto simp: digit16_def hex_value_def is_ws_def)

lemma parseInt16_two_digits:
  assumes "is_hexdigit a" and "is_hexdigit b"
  shows "parseInt16 [a, b] = Some (int (16 * hex_value a + hex_value b))"
  using hexdigit_cases[OF assms(1)] hexdigit_cases[OF assms(2)]
  by (simp add: parseInt16_def)

lemma channel_two_digits:
  assumes "is_hexdigit a" and "is_hexdigit b"
  shows "channel [a, b] = Num (spec_decode a b)"
  by (simp add: channel_def parseInt16_two_digits[OF assms] spec_decode_def)

lemma is_hex6_E:
  assumes "is_hex6 s"
  obtains r1 r2 g1 g2 b1 b2 where "s = [CHR ''#'', r1, r2, g1, g2, b1, b2]"
    and "is_hexdigit r1" "is_hexdigit r2" "is_hexdigit g1" "is_hexdigit g2"
    "is_hexdigit b1" "is_hexdigit b2"
proof -
  from assms obtain ds where s: "s = CHR ''#'' # ds" and len: "length ds = 6"
    and all: "list_all is_hexdigit ds"
    by (auto simp: is_hex6_def split: list.splits)
  from len obtain r1 r2 g1 g2 b1 b2 where "ds = [r1, r2, g1, g2, b1, b2]"
    by (auto simp: length_Suc_conv eval_nat_numeral)
  with s all that show thesis by simp
qed

lemma is_hex6_nonempty: "is_hex6 x \<Longrightarrow> x \<noteq> []"
  by (auto simp: is_hex6_def)

lemma toLinear_Num: "toLinear (Num x) = Num (spec_linear x)"
  by (simp add: toLinear_def spec_linear_def)

lemma relativeLuminance_hex6:
  assumes "is_hex6 s"
  shows "relativeLuminance s = Num (spec_luminance s)"
proof -
  from assms obtain r1 r2 g1 g2 b1 b2 where s: "s = [CHR ''#'', r1, r2, g1, g2, b1, b2]"
    and d: "is_hexdigit r1" "is_hexdigit r2" "is_hexdigit g1" "is_hexdigit g2"
    "is_hexdigit b1" "is_hexdigit b2"
    by (rule is_hex6_E)
  have "slice 1 3 s = [r1, r2]" "slice 3 5 s = [g1, g2]" "slice 5 7 s = [b1, b2]"
    by (simp_all add: s slice_def)
  then show ?thesis
    by (simp add: relativeLuminance_def channel_two_digits d toLinear_Num spec_luminance_def s)
qed

subsection \<open>No division by zero in \<open>contrastRatio\<close>\<close>

lemma digit16_le: "digit16 ch = Some d \<Longrightarrow> d \<le> 15"
  by (auto simp: digit16_def Let_def split: if_splits)

lemma parseInt16_short:
  assumes "parseInt16 s = Some n" and "length s \<le> 2"
  shows "- 15 \<le> n"
proof -
  consider "s = []" | a where "s = [a]" | a b where "s = [a, b]"
    using assms(2) by (cases s rule: list.exhaust; cases "tl s"; auto)
  then show ?thesis
  proof cases
    case 1
    with assms(1) show ?thesis by (simp add: parseInt16_def)
  next
    case 2
    with assms(1) show ?thesis
      by (auto simp: parseInt16_def split: if_splits option.splits)
  next
    case 3
    with assms(1) show ?thesis
      by (auto simp: parseInt16_def split: if_splits option.splits dest!: digit16_le)
  qed
qed

lemma channel_short_lower:
  assumes "channel s = Num x" and "length s \<le> 2"
  shows "- (1 / 17) \<le> x"
proof -
  from assms(1) obtain n where n: "parseInt16 s = Some n" "x = of_int n / 255"
    by (auto simp: channel_def split: option.splits)
  from parseInt16_short[OF n(1) assms(2)] have "- 15 \<le> (of_int n :: real)" by linarith
  then show ?thesis by (simp add: n(2))
qed

lemma toLinear_lower:
  assumes "toLinear (channel s) = Num y" and "length s \<le> 2"
  shows "- (1 / 200) \<le> y"
proof (cases "channel s")
  case NaN
  with assms(1) show ?thesis by (simp add: toLinear_def)
next
  case (Num x)
  from channel_short_lower[OF Num assms(2)] have x: "- (1 / 17) \<le> x" .
  show ?thesis
  proof (cases "x \<le> 0.03928")
    case True
    with assms(1) Num have "y = x / 12.92" by (simp add: toLinear_def)
    with x show ?thesis by simp
  next
    case False
    with assms(1) Num have "y = ((x + 0.055) / 1.055) powr 2.4" by (simp add: toLinear_def)
    moreover have "0 \<le> ((x + 0.055) / 1.055) powr 2.4" by (rule powr_ge_zero)
    ultimately show ?thesis by linarith
  qed
qed

lemma luminance_lower_bound:
  assumes "relativeLuminance hex = Num lum"
  shows "- 0.05 < lum"
proof -
  from assms obtain r g b where rgb: "toLinear (channel (slice 1 3 hex)) = Num r"
    "toLinear (channel (slice 3 5 hex)) = Num g" "toLinear (channel (slice 5 7 hex)) = Num b"
    and lum: "lum = 0.2126 * r + 0.7152 * g + 0.0722 * b"
    unfolding relativeLuminance_def Let_def
    by (cases "toLinear (channel (slice 1 3 hex))"; cases "toLinear (channel (slice 3 5 hex))";
        cases "toLinear (channel (slice 5 7 hex))") auto
  have "- (1 / 200) \<le> r" "- (1 / 200) \<le> g" "- (1 / 200) \<le> b"
    by (rule toLinear_lower[OF rgb(1)], simp add: slice_def)
      (rule toLinear_lower[OF rgb(2)], simp add: slice_def,
       rule toLinear_lower[OF rgb(3)], simp add: slice_def)
  then show ?thesis by (simp add: lum)
qed

subsection \<open>Bounding the power \<open>2.4\<close> by rational arithmetic\<close>

lemma fifth_root_of_fifth_power:
  assumes "0 \<le> (lo::real)"
  shows "(lo ^ 5) powr (1 / 5) = lo"
proof (cases "lo = 0")
  case True
  then show ?thesis by simp
next
  case False
  then have pos: "0 < lo" using assms by simp
  have "lo ^ 5 = lo powr 5" using pos by simp
  then have "(lo ^ 5) powr (1 / 5) = lo powr (5 * (1 / 5))" by (simp only: powr_powr)
  then show ?thesis using pos by simp
qed

lemma fifth_root_of_twelfth_power:
  assumes "0 < (y::real)"
  shows "(y ^ 12) powr (1 / 5) = y powr 2.4"
proof -
  have "y ^ 12 = y powr 12" using assms by simp
  then have "(y ^ 12) powr (1 / 5) = y powr (12 * (1 / 5))" by (simp only: powr_powr)
  then show ?thesis by simp
qed

lemma powr_12_5_lower:
  fixes y lo :: real
  assumes "0 < y" "0 \<le> lo" "lo ^ 5 \<le> y ^ 12"
  shows "lo \<le> y powr 2.4"
proof -
  have "(lo ^ 5) powr (1 / 5) \<le> (y ^ 12) powr (1 / 5)"
    using assms by (intro powr_mono2) simp_all
  then show ?thesis
    by (simp only: fifth_root_of_fifth_power[OF assms(2)] fifth_root_of_twelfth_power[OF assms(1)])
qed

lemma powr_12_5_upper:
  fixes y hi :: real
  assumes "0 < y" "0 \<le> hi" "y ^ 12 \<le> hi ^ 5"
  shows "y powr 2.4 \<le> hi"
proof -
  have "(y ^ 12) powr (1 / 5) \<le> (hi ^ 5) powr (1 / 5)"
    using assms by (intro powr_mono2) simp_all
  then show ?thesis
    by (simp only: fifth_root_of_fifth_power[OF assms(2)] fifth_root_of_twelfth_power[OF assms(1)])
qed

lemma linear_239:
  "0.8625 \<le> ((239 / 255 + 0.055) / 1.055 :: real) powr 2.4"
  "((239 / 255 + 0.055) / 1.055 :: real) powr 2.4 \<le> 0.8635"
  by (rule powr_12_5_lower; simp add: divide_simps) (rule powr_12_5_upper; simp add: divide_simps)

lemma luminance_ef0000:
  "spec_luminance ''#ef0000'' = 0.2126 * ((239 / 255 + 0.055) / 1.055) powr 2.4"
  by (simp add: spec_luminance_def spec_decode_def hex_value_def spec_linear_def)

lemma luminance_white: "spec_luminance ''#ffffff'' = 1"
  by (simp add: spec_luminance_def spec_decode_def hex_value_def spec_linear_def)

lemma contrast_ef0000_white:
  "\<exists>r. contrastRatio ''#ef0000'' ''#ffffff'' = Num r \<and> 4.495 \<le> r \<and> r < 4.5"
proof -
  define x :: real where "x = ((239 / 255 + 0.055) / 1.055) powr 2.4"
  have x: "0.8625 \<le> x" "x \<le> 0.8635"
    unfolding x_def by (rule linear_239)+
  have hex: "is_hex6 ''#ef0000''" "is_hex6 ''#ffffff''"
    by (simp_all add: is_hex6_def is_hexdigit_def)
  have "contrastRatio ''#ef0000'' ''#ffffff'' = Num (spec_contrast (0.2126 * x) 1)"
    unfolding x_def
    by (simp only: contrastRatio_def Let_def relativeLuminance_hex6[OF hex(1)]
        relativeLuminance_hex6[OF hex(2)] luminance_ef0000 luminance_white spec_contrast_def
        num_op.simps)
  moreover have "spec_contrast (0.2126 * x) 1 = 1.05 / (0.2126 * x + 0.05)"
    using x by (simp add: spec_contrast_def max_def min_def)
  moreover have "4.495 \<le> 1.05 / (0.2126 * x + 0.05)" "1.05 / (0.2126 * x + 0.05) < 4.5"
    using x by (simp_all add: field_simps)
  ultimately show ?thesis by simp
qed

subsection \<open>Rounding to doubles\<close>

lemma rne_of_int: "rne (of_int n) = n"
  by (simp add: rne_def)

lemma rne_bounds: "\<lfloor>y\<rfloor> \<le> rne y" "rne y \<le> \<lceil>y\<rceil>"
proof -
  show "\<lfloor>y\<rfloor> \<le> rne y" by (simp add: rne_def Let_def)
  show "rne y \<le> \<lceil>y\<rceil>"
  proof (cases "y = of_int \<lfloor>y\<rfloor>")
    case True
    then have "rne y = \<lfloor>y\<rfloor>" by (simp add: rne_def Let_def)
    then show ?thesis by (simp add: floor_le_ceiling)
  next
    case False
    then have "\<lceil>y\<rceil> = \<lfloor>y\<rfloor> + 1"
      by (metis ceiling_altdef)
    then show ?thesis by (simp add: rne_def Let_def)
  qed
qed

lemma round64_binade:
  assumes "2 powr of_int e \<le> x" and "x < 2 powr (of_int e + 1)"
  shows "round64 x = 2 powr (of_int e - 52) * of_int (rne (x / 2 powr (of_int e - 52)))"
proof -
  have pos: "0 < x" using assms(1) by (smt (verit) powr_gt_zero)
  then have "\<lfloor>log 2 x\<rfloor> = e"
    using assms by (simp add: floor_log_eq_powr_iff)
  with pos show ?thesis by (simp add: round64_def Let_def)
qed

text \<open>Rounding stays between two doubles of the binade that enclose the argument.\<close>

lemma round64_grid:
  assumes "2 powr of_int e \<le> x" and "x < 2 powr (of_int e + 1)"
    and "of_int m * 2 powr (of_int e - 52) \<le> x" and "x \<le> of_int n * 2 powr (of_int e - 52)"
  shows "of_int m * 2 powr (of_int e - 52) \<le> round64 x"
    and "round64 x \<le> of_int n * 2 powr (of_int e - 52)"
proof -
  let ?u = "2 powr (of_int e - 52) :: real"
  have u: "0 < ?u" by simp
  have "of_int m \<le> x / ?u" using assms(3) u by (simp add: pos_le_divide_eq)
  then have "m \<le> \<lfloor>x / ?u\<rfloor>" by (simp add: le_floor_iff)
  with rne_bounds(1)[of "x / ?u"] have lo: "m \<le> rne (x / ?u)" by linarith
  have "x / ?u \<le> of_int n" using assms(4) u by (simp add: pos_divide_le_eq)
  then have "\<lceil>x / ?u\<rceil> \<le> n" by (simp add: ceiling_le_iff)
  with rne_bounds(2)[of "x / ?u"] have hi: "rne (x / ?u) \<le> n" by linarith
  from lo have "of_int m * ?u \<le> of_int (rne (x / ?u)) * ?u"
    using u by (simp add: mult_right_mono)
  then show "of_int m * ?u \<le> round64 x"
    by (simp add: round64_binade[OF assms(1,2)] mult.commute)
  from hi have "of_int (rne (x / ?u)) * ?u \<le> of_int n * ?u"
    using u by (simp add: mult_right_mono)
  then show "round64 x \<le> of_int n * ?u"
    by (simp add: round64_binade[OF assms(1,2)] mult.commute)
qed

lemma round64_product_near_450:
  fixes r :: real
  assumes "4.495 \<le> r" and "r < 4.5"
  shows "449.5 \<le> round64 (r * 100)" and "round64 (r * 100) \<le> 450"
proof -
  have b: "2 powr of_int 8 \<le> r * 100" "r * 100 < 2 powr (of_int 8 + 1)"
    using assms by simp_all
  have g: "of_int (899 * 2 ^ 43) * 2 powr (of_int 8 - 52) \<le> r * 100"
    "r * 100 \<le> of_int (900 * 2 ^ 43) * 2 powr (of_int 8 - 52)"
    using assms by (simp_all add: powr_minus_divide)
  from round64_grid[OF b g] show "449.5 \<le> round64 (r * 100)" "round64 (r * 100) \<le> 450"
    by (simp_all add: powr_minus_divide)
qed

lemma round64_four_and_a_half: "round64 (9 / 2) = 9 / 2"
proof -
  have b: "2 powr of_int 2 \<le> (9 / 2 :: real)" "(9 / 2 :: real) < 2 powr (of_int 2 + 1)"
    by simp_all
  have "(9 / 2 :: real) / 2 powr (of_int 2 - 52) = of_int (9 * 2 ^ 49)"
    by (simp add: powr_minus_divide)
  then show ?thesis
    by (simp only: round64_binade[OF b] rne_of_int) (simp add: powr_minus_divide)
qed

lemma entry_of_Num:
  "entry_of (Num r) =
     \<lparr>ratio = Num (round64 (of_int \<lfloor>round64 (r * 100) + 1 / 2\<rfloor> / 100)), pass = (4.5 \<le> r)\<rparr>"
  by (simp add: entry_of_def double_mul_def double_div_def)

lemma entry_of_NaN: "entry_of NaN = \<lparr>ratio = NaN, pass = False\<rparr>"
  by (simp add: entry_of_def double_mul_def double_div_def)

lemma entry_of_near_threshold:
  fixes r :: real
  assumes "4.495 \<le> r" and "r < 4.5"
  shows "entry_of (Num r) = \<lparr>ratio = Num 4.5, pass = False\<rparr>"
proof -
  from round64_product_near_450[OF assms] have "\<lfloor>round64 (r * 100) + 1 / 2\<rfloor> = 450"
    by (simp add: floor_eq_iff)
  then have "round64 (of_int \<lfloor>round64 (r * 100) + 1 / 2\<rfloor> / 100) = round64 (9 / 2)"
    by simp
  then show ?thesis
    using assms(2) by (simp only: entry_of_Num round64_four_and_a_half) simp
qed

text \<open>
  An example off the threshold: the double nearest to \<open>41 / 40\<close> lies just below it, its
  product with \<open>100\<close> rounds to a double below \<open>102.5\<close>, and the entry's ratio is the
  double nearest to \<open>1.02\<close>, where exact arithmetic on \<open>41 / 40\<close> would give \<open>1.03\<close>.
\<close>

lemma round64_product_example:
  "round64 (2308094809027379 / 2 ^ 51 * 100) = 7212796278210559 / 2 ^ 46"
proof -
  have b: "2 powr of_int 6 \<le> (2308094809027379 / 2 ^ 51 * 100 :: real)"
    "(2308094809027379 / 2 ^ 51 * 100 :: real) < 2 powr (of_int 6 + 1)"
    by simp_all
  have "rne ((2308094809027379 / 2 ^ 51 * 100 :: real) / 2 powr (of_int 6 - 52))
          = 7212796278210559"
    by (simp add: powr_minus_divide rne_def Let_def)
  then show ?thesis
    by (simp only: round64_binade[OF b]) (simp add: powr_minus_divide)
qed

lemma round64_quotient_example:
  "round64 (102 / 100) = 2296835809958953 / 2 ^ 51"
proof -
  have b: "2 powr of_int 0 \<le> (102 / 100 :: real)" "(102 / 100 :: real) < 2 powr (of_int 0 + 1)"
    by simp_all
  have "rne ((102 / 100 :: real) / 2 powr (of_int 0 - 52)) = 4593671619917906"
    by (simp add: powr_minus_divide rne_def Let_def)
  then show ?thesis
    by (simp only: round64_binade[OF b]) (simp add: powr_minus_divide)
qed

lemma entry_of_double_example:
  "entry_of (Num (2308094809027379 / 2 ^ 51))
     = \<lparr>ratio = Num (2296835809958953 / 2 ^ 51), pass = False\<rparr>"
proof -
  have "\<lfloor>round64 (2308094809027379 / 2 ^ 51 * 100) + 1 / 2\<rfloor> = (102 :: int)"
    by (simp only: round64_product_example) simp
  then have "round64 (of_int \<lfloor>round64 (2308094809027379 / 2 ^ 51 * 100) + 1 / 2\<rfloor> / 100)
               = round64 (102 / 100)"
    by simp
  then show ?thesis
    by (simp only: entry_of_Num round64_quotient_example) simp
qed

subsection \<open>Scale generation\<close>

lemma scaleToHexMap_eq:
  "scaleToHexMap A sc = map (\<lambda>k. (k, formatHex A (map_of sc k))) SHADE_KEYS"
  by (simp add: scaleToHexMap_def SHADE_KEYS_def)


lemma hex_scale_scaleToHexMap:
  assumes "\<forall>col. \<exists>s. formatHex A (Some col) = Str s \<and> is_hex6 s"
    and "\<forall>k \<in> set spec_shade_keys. map_of sc k \<noteq> None"
  shows "hex_scale (scaleToHexMap A sc)"
proof -
  have "case formatHex A (map_of sc k) of Undefined \<Rightarrow> False | Str x \<Rightarrow> is_hex6 x"
    if "k \<in> set spec_shade_keys" for k
  proof -
    from that assms(2) obtain col where "map_of sc k = Some col" by auto
    moreover from assms(1) obtain s where "formatHex A (Some col) = Str s" "is_hex6 s" by blast
    ultimately show ?thesis by simp
  qed
  then have "list_all (\<lambda>(k, v). case v of Undefined \<Rightarrow> False | Str x \<Rightarrow> is_hex6 x)
               (map (\<lambda>k. (k, formatHex A (map_of sc k))) spec_shade_keys)"
    by (simp add: list_all_iff)
  then show ?thesis
    by (simp add: hex_scale_def scaleToHexMap_eq keys_def SHADE_KEYS_def spec_shade_keys_def)
qed

lemma adapter_ok_sample: "adapter_ok sample_adapter"
  by (simp add: adapter_ok_def sample_adapter_def is_hex6_def is_hexdigit_def SHADE_KEYS_def
      spec_shade_keys_def)

lemma is_hex6_samples: "is_hex6 ''#6366f1''" "is_hex6 ''#808080''" "is_hex6 ''#3366cc''"
  by (simp_all add: is_hex6_def is_hexdigit_def)

subsection \<open>The role resolver on object arguments\<close>

lemma resolve_light:
  "resolveTokens (Some cs) (Some ns) ss False =
     Inr [(''bg'', obj_get ns ''50''), (''surface'', obj_get ns ''100''),
          (''border'', obj_get ns ''200''), (''text-muted'', obj_get ns ''500''),
          (''text'', obj_get ns ''900''), (''primary'', obj_get cs ''500''),
          (''secondary'', obj_get (case ss of None \<Rightarrow> cs | Some s \<Rightarrow> s) ''200'')]"
  by (cases ss) (simp_all add: resolveTokens_def LIGHT_ROLES_def get_prop_def)

lemma resolve_dark:
  "resolveTokens (Some cs) (Some ns) ss True =
     Inr [(''bg'', obj_get ns ''900''), (''surface'', obj_get ns ''800''),
          (''border'', obj_get ns ''700''), (''text-muted'', obj_get ns ''400''),
          (''text'', obj_get ns ''50''), (''primary'', obj_get cs ''600''),
          (''primary-text'', obj_get cs ''400''),
          (''secondary'', obj_get (case ss of None \<Rightarrow> cs | Some s \<Rightarrow> s) ''800'')]"
  by (cases ss) (simp_all add: resolveTokens_def DARK_ROLES_def get_prop_def)

subsection \<open>The audit loop\<close>

lemma checkWCAG_six:
  assumes "obj_get tokens ''text'' = Str t" and "obj_get tokens ''bg'' = Str b"
    and "obj_get tokens ''surface'' = Str s" and "obj_get tokens ''text-muted'' = Str m"
    and "obj_get tokens ''primary'' = Str p" and "\<not> truthy (obj_get tokens ''primary-text'')"
  shows "checkWCAG cr tokens =
     Inr [(''text/bg'', entry_of (cr t b)), (''text/surface'', entry_of (cr t s)),
          (''text-muted/bg'', entry_of (cr m b)), (''text-muted/surface'', entry_of (cr m s)),
          (''primary/bg'', entry_of (cr p b)), (''primary/surface'', entry_of (cr p s))]"
  using assms by (simp add: checkWCAG_def pairs_def)

lemma checkWCAG_eight:
  assumes "obj_get tokens ''text'' = Str t" and "obj_get tokens ''bg'' = Str b"
    and "obj_get tokens ''surface'' = Str s" and "obj_get tokens ''text-muted'' = Str m"
    and "obj_get tokens ''primary'' = Str p" and "obj_get tokens ''primary-text'' = Str q"
    and "q \<noteq> []"
  shows "checkWCAG cr tokens =
     Inr [(''text/bg'', entry_of (cr t b)), (''text/surface'', entry_of (cr t s)),
          (''text-muted/bg'', entry_of (cr m b)), (''text-muted/surface'', entry_of (cr m s)),
          (''primary/bg'', entry_of (cr p b)), (''primary/surface'', entry_of (cr p s)),
          (''primary-text/bg'', entry_of (cr q b)),
          (''primary-text/surface'', entry_of (cr q s))]"
  using assms by (simp add: checkWCAG_def pairs_def)

lemma token_set_get:
  assumes "token_set tokens" and "role \<in> set (keys tokens)"
  shows "\<exists>x. obj_get tokens role = Str x \<and> is_hex6 x"
proof -
  from assms(2) have "map_of tokens role \<noteq> None"
    by (simp add: keys_def map_of_eq_None_iff)
  then obtain v where v: "map_of tokens role = Some v"
    by blast
  then have "(role, v) \<in> set tokens" by (rule map_of_SomeD)
  with assms(1) have "case v of Undefined \<Rightarrow> False | Str x \<Rightarrow> is_hex6 x"
    by (auto simp: token_set_def list_all_iff)
  with v show ?thesis by (cases v) (simp_all add: obj_get_def)
qed

lemma token_set_samples: "token_set sample_tokens_light" "token_set sample_tokens_dark"
  by (simp_all add: token_set_def sample_tokens_light_def sample_tokens_dark_def keys_def
      is_hex6_def is_hexdigit_def)

lemma wcag_loop_entries:
  assumes "wcag_loop cr tokens ps acc = Inr w" and "(k, e) \<in> set w"
  shows "(k, e) \<in> set acc
       \<or> (\<exists>fg bg hex1 hex2. (fg, bg) \<in> set ps \<and> k = fg @ ''/'' @ bg
            \<and> obj_get tokens fg = Str hex1 \<and> obj_get tokens bg = Str hex2
            \<and> e = entry_of (cr hex1 hex2))"
  using assms
proof (induction ps arbitrary: acc)
  case Nil
  then show ?case by simp
next
  case (Cons pr ps)
  obtain fg bg where pr: "pr = (fg, bg)" by (cases pr)
  from Cons.prems(1) obtain hex1 hex2 where h: "obj_get tokens fg = Str hex1"
    "obj_get tokens bg = Str hex2"
    and rest: "wcag_loop cr tokens ps (obj_set acc (fg @ ''/'' @ bg) (entry_of (cr hex1 hex2)))
                 = Inr w"
    by (auto simp: pr split: jsval.splits)
  from Cons.IH[OF rest Cons.prems(2)] show ?case
  proof
    assume "(k, e) \<in> set (obj_set acc (fg @ ''/'' @ bg) (entry_of (cr hex1 hex2)))"
    with set_obj_set
    have "(k, e) = (fg @ ''/'' @ bg, entry_of (cr hex1 hex2)) \<or> (k, e) \<in> set acc"
      by fastforce
    with h show ?thesis by (auto simp: pr)
  next
    assume "\<exists>fg bg hex1 hex2. (fg, bg) \<in> set ps \<and> k = fg @ ''/'' @ bg
            \<and> obj_get tokens fg = Str hex1 \<and> obj_get tokens bg = Str hex2
            \<and> e = entry_of (cr hex1 hex2)"
    then show ?thesis by auto
  qed
qed

section \<open>The claims\<close>



text \<open>
  Claim C2: for hex colours \<open>h1\<close> and \<open>h2\<close>, \<open>contrastRatio\<close> is the WCAG contrast of the
  two WCAG relative luminances: each channel decoded from its two hex digits to
  \<open>[0, 1]\<close>, made linear piecewise, and combined with the weights \<open>0.2126\<close>, \<open>0.7152\<close> and
  \<open>0.0722\<close>.
\<close>

theorem contrastRatio_wcag:
  assumes "is_hex6 h1" and "is_hex6 h2"
  shows "contrastRatio h1 h2 = Num (spec_contrast (spec_luminance h1) (spec_luminance h2))"
  by (simp add: contrastRatio_def relativeLuminance_hex6 assms spec_contrast_def)

theorem contrastRatio_wcag_witness:
  "is_hex6 ''#000000'' \<and> is_hex6 ''#ffffff'' \<and> contrastRatio ''#000000'' ''#ffffff'' = Num 21"
proof -
  have a: "is_hex6 ''#000000''" and b: "is_hex6 ''#ffffff''"
    by (simp_all add: is_hex6_def is_hexdigit_def)
  have "spec_luminance ''#000000'' = 0"
    by (simp add: spec_luminance_def spec_decode_def hex_value_def spec_linear_def)
  with contrastRatio_wcag[OF a b] a b show ?thesis
    by (simp add: spec_contrast_def luminance_white)
qed

text \<open>
  Claim C3, as the code has it: \<open>resolveTokens\<close> does not check that a shade is present.
  On scale arguments that are objects it always returns a token set, in which every role
  of the selected table is bound to what reading its shade from its scale gives, and
  that is \<open>undefined\<close> when the scale has no such key.
\<close>

theorem resolveTokens_reads_undefined:
  "\<exists>t. resolveTokens (Some cs) (Some ns) ss dark = Inr t
       \<and> (\<forall>(role, d) \<in> set (if dark then DARK_ROLES else LIGHT_ROLES).
             obj_get t role = obj_get (scale_for cs ns ss d) (shade d)
             \<and> (shade d \<notin> set (keys (scale_for cs ns ss d)) \<longrightarrow> obj_get t role = Undefined))"
proof (cases dark)
  case True
  have "\<forall>(role, d) \<in> set DARK_ROLES.
          obj_get [(''bg'', obj_get ns ''900''), (''surface'', obj_get ns ''800''),
          (''border'', obj_get ns ''700''), (''text-muted'', obj_get ns ''400''),
          (''text'', obj_get ns ''50''), (''primary'', obj_get cs ''600''),
          (''primary-text'', obj_get cs ''400''),
          (''secondary'', obj_get (case ss of None \<Rightarrow> cs | Some s \<Rightarrow> s) ''800'')] role
          = obj_get (scale_for cs ns ss d) (shade d)"
    by (simp add: DARK_ROLES_def scale_for_def obj_get_def)
  then show ?thesis
    using True by (auto simp: resolve_dark obj_get_absent)
next
  case False
  have "\<forall>(role, d) \<in> set LIGHT_ROLES.
          obj_get [(''bg'', obj_get ns ''50''), (''surface'', obj_get ns ''100''),
          (''border'', obj_get ns ''200''), (''text-muted'', obj_get ns ''500''),
          (''text'', obj_get ns ''900''), (''primary'', obj_get cs ''500''),
          (''secondary'', obj_get (case ss of None \<Rightarrow> cs | Some s \<Rightarrow> s) ''200'')] role
          = obj_get (scale_for cs ns ss d) (shade d)"
    by (simp add: LIGHT_ROLES_def scale_for_def obj_get_def)
  then show ?thesis
    using False by (auto simp: resolve_light obj_get_absent)
qed

theorem resolveTokens_reads_undefined_witness:
  "\<exists>t. resolveTokens (Some sample_color) (Some sample_neutral_no50) None False = Inr t
       \<and> obj_get t ''bg'' = Undefined \<and> obj_get t ''surface'' = Str ''#f1f5f9''"
proof -
  from resolveTokens_reads_undefined[of sample_color sample_neutral_no50 None False]
  obtain t where t: "resolveTokens (Some sample_color) (Some sample_neutral_no50) None False = Inr t"
    and all: "\<forall>(role, d) \<in> set LIGHT_ROLES.
             obj_get t role = obj_get (scale_for sample_color sample_neutral_no50 None d) (shade d)
             \<and> (shade d \<notin> set (keys (scale_for sample_color sample_neutral_no50 None d))
                  \<longrightarrow> obj_get t role = Undefined)"
    by auto
  have "(''bg'', \<lparr>source = ''neutral'', shade = ''50''\<rparr>) \<in> set LIGHT_ROLES"
    "(''surface'', \<lparr>source = ''neutral'', shade = ''100''\<rparr>) \<in> set LIGHT_ROLES"
    by (simp_all add: LIGHT_ROLES_def)
  with all have "obj_get t ''bg'' = Undefined" "obj_get t ''surface'' = Str ''#f1f5f9''"
    by (auto simp: scale_for_def sample_neutral_no50_def keys_def obj_get_def)
  with t show ?thesis by blast
qed

text \<open>
  Claim C3 as stated fails: with a neutral scale that lacks the shade \<open>50\<close>, which the
  light table reads for \<open>bg\<close>, the resolution does not raise; it returns a token set in
  which \<open>bg\<close> is bound to \<open>undefined\<close>.
\<close>

theorem resolveTokens_missing_shade_counterexample:
  "''50'' \<notin> set (keys sample_neutral_no50)
   \<and> resolveTokens (Some sample_color) (Some sample_neutral_no50) None False =
       Inr [(''bg'', Undefined), (''surface'', Str ''#f1f5f9''), (''border'', Str ''#e2e8f0''),
            (''text-muted'', Str ''#64748b''), (''text'', Str ''#0f172a''),
            (''primary'', Str ''#6366f1''), (''secondary'', Str ''#c7d2fe'')]"
  by (simp add: resolve_light obj_get_def sample_color_def sample_neutral_no50_def keys_def)

text \<open>
  Claim C4: for every scheme other than \<open>single\<close> and \<open>analogous\<close>, recognised or not,
  \<open>generateSecondaryScale\<close> takes the hue shift \<open>180\<close>: it synthesizes the scale of the seed
  whose hue is the primary's hue, or \<open>0\<close> when absent, plus \<open>180\<close>, remainder \<open>360\<close>. That
  is exactly what it does for \<open>complementary\<close>. Its only failures are the \<open>TypeError\<close> of
  an unparseable primary and a failure of the scale synthesis; none comes from the scheme.
\<close>

theorem generateSecondaryScale_default_shift:
  assumes "scheme \<noteq> ''single''" and "scheme \<noteq> ''analogous''"
  shows "generateSecondaryScale A hex scheme =
           (case oklch_parse A hex of
              None \<Rightarrow> Inl TypeError
            | Some p \<Rightarrow>
                (case ditto_scale A
                        (formatHex A
                           (Some \<lparr>ok_l = ok_l p, ok_c = ok_c p * 0.85,
                                  ok_h = Some (js_rem ((case ok_h p of None \<Rightarrow> 0 | Some x \<Rightarrow> x)
                                                        + 180) 360)\<rparr>)) of
                   Inl e \<Rightarrow> Inl e
                 | Inr sc \<Rightarrow> Inr (Some (scaleToHexMap A sc))))
       \<and> generateSecondaryScale A hex scheme = generateSecondaryScale A hex ''complementary''"
  using assms by (simp add: generateSecondaryScale_def split: option.splits)

theorem generateSecondaryScale_default_shift_witness:
  "''triadic'' \<noteq> ''single'' \<and> ''triadic'' \<noteq> ''analogous''
   \<and> oklch_parse hue_adapter ''#6366f1'' = Some \<lparr>ok_l = 0.5, ok_c = 0.2, ok_h = Some 200\<rparr>
   \<and> js_rem (200 + 180) 360 = 20
   \<and> generateSecondaryScale hue_adapter ''#6366f1'' ''triadic''
       = Inr (Some [(''50'', Str ''#cc6633''), (''100'', Str ''#cc6633''),
                    (''200'', Str ''#cc6633''), (''300'', Str ''#cc6633''),
                    (''400'', Str ''#cc6633''), (''500'', Str ''#cc6633''),
                    (''600'', Str ''#cc6633''), (''700'', Str ''#cc6633''),
                    (''800'', Str ''#cc6633''), (''900'', Str ''#cc6633''),
                    (''950'', Str ''#cc6633'')])
   \<and> generateSecondaryScale hue_adapter ''#6366f1'' ''complementary''
       = generateSecondaryScale hue_adapter ''#6366f1'' ''triadic''
   \<and> generateSecondaryScale hue_adapter ''#6366f1'' ''analogous''
       \<noteq> generateSecondaryScale hue_adapter ''#6366f1'' ''triadic''"
proof -
  have ne: "''triadic'' \<noteq> ''single''" "''triadic'' \<noteq> ''analogous''"
    by simp_all
  have p: "oklch_parse hue_adapter ''#6366f1'' = Some \<lparr>ok_l = 0.5, ok_c = 0.2, ok_h = Some 200\<rparr>"
    by (simp add: hue_adapter_def is_hex6_samples)
  have r: "js_rem (200 + 180) 360 = 20"
    by (simp add: js_rem_def trunc_def)
  have seed:
    "(case oklch_parse hue_adapter ''#6366f1'' of
        None \<Rightarrow> Inl TypeError
      | Some p \<Rightarrow>
          (case ditto_scale hue_adapter
                  (formatHex hue_adapter
                     (Some \<lparr>ok_l = ok_l p, ok_c = ok_c p * 0.85,
                            ok_h = Some (js_rem ((case ok_h p of None \<Rightarrow> 0 | Some x \<Rightarrow> x)
                                                  + 180) 360)\<rparr>)) of
             Inl e \<Rightarrow> Inl e
           | Inr sc \<Rightarrow> Inr (Some (scaleToHexMap hue_adapter sc))))
     = Inr (Some [(''50'', Str ''#cc6633''), (''100'', Str ''#cc6633''),
                  (''200'', Str ''#cc6633''), (''300'', Str ''#cc6633''),
                  (''400'', Str ''#cc6633''), (''500'', Str ''#cc6633''),
                  (''600'', Str ''#cc6633''), (''700'', Str ''#cc6633''),
                  (''800'', Str ''#cc6633''), (''900'', Str ''#cc6633''),
                  (''950'', Str ''#cc6633'')])"
    by (simp add: hue_adapter_def is_hex6_samples is_hex6_def is_hexdigit_def js_rem_def
        trunc_def scaleToHexMap_eq SHADE_KEYS_def)
  from generateSecondaryScale_default_shift[OF ne, of hue_adapter "''#6366f1''"]
  have t: "generateSecondaryScale hue_adapter ''#6366f1'' ''triadic''
       = Inr (Some [(''50'', Str ''#cc6633''), (''100'', Str ''#cc6633''),
                    (''200'', Str ''#cc6633''), (''300'', Str ''#cc6633''),
                    (''400'', Str ''#cc6633''), (''500'', Str ''#cc6633''),
                    (''600'', Str ''#cc6633''), (''700'', Str ''#cc6633''),
                    (''800'', Str ''#cc6633''), (''900'', Str ''#cc6633''),
                    (''950'', Str ''#cc6633'')])"
    and c: "generateSecondaryScale hue_adapter ''#6366f1'' ''complementary''
       = generateSecondaryScale hue_adapter ''#6366f1'' ''triadic''"
    unfolding seed by (blast, metis)
  have "generateSecondaryScale hue_adapter ''#6366f1'' ''analogous''
       = Inr (Some (map (\<lambda>k. (k, Str ''#3333cc'')) SHADE_KEYS))"
    by (simp add: generateSecondaryScale_def hue_adapter_def is_hex6_samples is_hex6_def
        is_hexdigit_def js_rem_def trunc_def scaleToHexMap_eq SHADE_KEYS_def)
  then have a: "generateSecondaryScale hue_adapter ''#6366f1'' ''analogous''
       \<noteq> generateSecondaryScale hue_adapter ''#6366f1'' ''triadic''"
    by (simp add: t SHADE_KEYS_def)
  from ne p r t c a show ?thesis by blast
qed

text \<open>
  Claim C5: when the secondary scale is absent, \<open>resolveTokens\<close> reads every
  accent-sourced role from the colour scale: the token \<open>secondary\<close> is the colour scale's
  shade \<open>200\<close> in light mode and its shade \<open>800\<close> in dark mode.
\<close>

theorem resolveTokens_accent_fallback:
  "\<exists>t. resolveTokens (Some cs) (Some ns) None dark = Inr t
       \<and> obj_get t ''secondary'' = obj_get cs (if dark then ''800'' else ''200'')
       \<and> (\<forall>(role, d) \<in> set (if dark then DARK_ROLES else LIGHT_ROLES).
             source d = ''accent'' \<longrightarrow> obj_get t role = obj_get cs (shade d))"
proof (cases dark)
  case True
  then show ?thesis
    by (simp add: resolve_dark) (simp add: obj_get_def DARK_ROLES_def)
next
  case False
  then show ?thesis
    by (simp add: resolve_light) (simp add: obj_get_def LIGHT_ROLES_def)
qed

theorem resolveTokens_accent_fallback_witness:
  "(\<exists>t. resolveTokens (Some sample_color) (Some sample_neutral) None False = Inr t
       \<and> obj_get t ''secondary'' = Str ''#c7d2fe'')
   \<and> (\<exists>t. resolveTokens (Some sample_color) (Some sample_neutral) None True = Inr t
       \<and> obj_get t ''secondary'' = Str ''#3730a3'')"
proof -
  have g: "obj_get sample_color ''200'' = Str ''#c7d2fe''"
    "obj_get sample_color ''800'' = Str ''#3730a3''"
    by (simp_all add: sample_color_def obj_get_def)
  from resolveTokens_accent_fallback[of sample_color sample_neutral False]
  obtain t where "resolveTokens (Some sample_color) (Some sample_neutral) None False = Inr t"
    "obj_get t ''secondary'' = obj_get sample_color ''200''"
    by auto
  moreover from resolveTokens_accent_fallback[of sample_color sample_neutral True]
  obtain t' where "resolveTokens (Some sample_color) (Some sample_neutral) None True = Inr t'"
    "obj_get t' ''secondary'' = obj_get sample_color ''800''"
    by auto
  ultimately show ?thesis
    unfolding g by blast
qed

text \<open>
  Claim C6: for all scales, and a secondary scale present or absent, \<open>resolveTokens\<close>
  returns a token set whose keys are exactly the roles of the selected role table, each
  once; it has the key \<open>primary-text\<close> exactly when \<open>dark\<close> is true.
\<close>

theorem resolveTokens_keys:
  "\<exists>t. resolveTokens (Some cs) (Some ns) ss dark = Inr t
       \<and> keys t = map fst (if dark then DARK_ROLES else LIGHT_ROLES)
       \<and> distinct (keys t)
       \<and> (''primary-text'' \<in> set (keys t)) = dark"
  by (cases dark) (simp_all add: resolve_dark resolve_light keys_def DARK_ROLES_def LIGHT_ROLES_def)

text \<open>
  Claim C7: on a token set, and whatever doubles the contrast calls return, \<open>checkWCAG\<close>
  returns exactly the six entries \<open>text/bg\<close>, \<open>text/surface\<close>, \<open>text-muted/bg\<close>,
  \<open>text-muted/surface\<close>, \<open>primary/bg\<close> and \<open>primary/surface\<close> when the token set has no
  role \<open>primary-text\<close>, and exactly eight, with \<open>primary-text/bg\<close> and
  \<open>primary-text/surface\<close> added, when it has one.
\<close>

theorem checkWCAG_entry_count:
  assumes "token_set tokens"
  shows "\<exists>w. checkWCAG cr tokens = Inr w
          \<and> keys w = [''text/bg'', ''text/surface'', ''text-muted/bg'', ''text-muted/surface'',
                      ''primary/bg'', ''primary/surface'']
                     @ (if ''primary-text'' \<in> set (keys tokens)
                        then [''primary-text/bg'', ''primary-text/surface''] else [])
          \<and> distinct (keys w)
          \<and> length w = (if ''primary-text'' \<in> set (keys tokens) then 8 else 6)"
proof -
  from assms have base: "''text'' \<in> set (keys tokens)" "''bg'' \<in> set (keys tokens)"
    "''surface'' \<in> set (keys tokens)" "''text-muted'' \<in> set (keys tokens)"
    "''primary'' \<in> set (keys tokens)"
    by (simp_all add: token_set_def)
  from base(1) obtain t where t: "obj_get tokens ''text'' = Str t"
    using token_set_get[OF assms] by blast
  from base(2) obtain b where b: "obj_get tokens ''bg'' = Str b"
    using token_set_get[OF assms] by blast
  from base(3) obtain s where s: "obj_get tokens ''surface'' = Str s"
    using token_set_get[OF assms] by blast
  from base(4) obtain m where m: "obj_get tokens ''text-muted'' = Str m"
    using token_set_get[OF assms] by blast
  from base(5) obtain p where p: "obj_get tokens ''primary'' = Str p"
    using token_set_get[OF assms] by blast
  show ?thesis
  proof (cases "''primary-text'' \<in> set (keys tokens)")
    case True
    then obtain q where q: "obj_get tokens ''primary-text'' = Str q" "is_hex6 q"
      using token_set_get[OF assms] by blast
    show ?thesis
      using True
      by (simp add: checkWCAG_eight[OF t b s m p q(1) is_hex6_nonempty[OF q(2)]] keys_def)
  next
    case False
    then have "\<not> truthy (obj_get tokens ''primary-text'')"
      by (simp add: obj_get_absent)
    from checkWCAG_six[OF t b s m p this] False show ?thesis
      by (simp add: keys_def)
  qed
qed

theorem checkWCAG_entry_count_witness:
  "token_set sample_tokens_light \<and> token_set sample_tokens_dark
   \<and> (\<exists>w. checkWCAG contrastRatio sample_tokens_light = Inr w \<and> length w = 6)
   \<and> (\<exists>w. checkWCAG contrastRatio sample_tokens_dark = Inr w \<and> length w = 8)"
proof -
  have "''primary-text'' \<notin> set (keys sample_tokens_light)"
    "''primary-text'' \<in> set (keys sample_tokens_dark)"
    by (simp_all add: sample_tokens_light_def sample_tokens_dark_def keys_def)
  with checkWCAG_entry_count[OF token_set_samples(1), of contrastRatio]
    checkWCAG_entry_count[OF token_set_samples(2), of contrastRatio] token_set_samples
  show ?thesis by auto
qed

text \<open>
  Claim C8: when the collaborators keep their contract and the primary hex is a hex
  colour, \<open>generateColorScale\<close> and \<open>generateNeutralScale\<close> return a scale, and
  \<open>generateSecondaryScale\<close> returns \<open>null\<close> or a scale; every such scale has exactly the
  11 keys \<open>50\<close>, \<open>100\<close>, \<open>200\<close>, \<open>300\<close>, \<open>400\<close>, \<open>500\<close>, \<open>600\<close>, \<open>700\<close>, \<open>800\<close>,
  \<open>900\<close> and \<open>950\<close>, no more and no fewer, each bound to a hex colour.
\<close>

theorem scales_have_fixed_keys:
  assumes "adapter_ok A" and "is_hex6 hex"
  shows "(\<exists>s. generateColorScale A hex = Inr s \<and> hex_scale s)
       \<and> (\<exists>s. generateNeutralScale A hex = Inr s \<and> hex_scale s)
       \<and> (generateSecondaryScale A hex scheme = Inr None
           \<or> (\<exists>s. generateSecondaryScale A hex scheme = Inr (Some s) \<and> hex_scale s))"
proof -
  from assms(1) have fmt: "\<forall>col. \<exists>s. formatHex A (Some col) = Str s \<and> is_hex6 s"
    and gen: "\<And>s. is_hex6 s \<Longrightarrow>
            \<exists>sc. ditto_scale A (Str s) = Inr sc \<and> (\<forall>k \<in> set spec_shade_keys. map_of sc k \<noteq> None)"
    and prs: "\<And>s. is_hex6 s \<Longrightarrow> oklch_parse A s \<noteq> None"
    by (simp_all add: adapter_ok_def)
  have seed: "\<exists>s. (case ditto_scale A (formatHex A (Some col)) of
                      Inl e \<Rightarrow> Inl e | Inr sc \<Rightarrow> Inr (scaleToHexMap A sc)) = Inr s \<and> hex_scale s"
    for col
  proof -
    from fmt obtain x where x: "formatHex A (Some col) = Str x" "is_hex6 x" by blast
    from gen[OF x(2)] obtain sc where sc: "ditto_scale A (Str x) = Inr sc"
      "\<forall>k \<in> set spec_shade_keys. map_of sc k \<noteq> None" by blast
    show ?thesis
      using hex_scale_scaleToHexMap[OF fmt sc(2)] by (simp add: x sc)
  qed
  from prs[OF assms(2)] obtain p where p: "oklch_parse A hex = Some p" by auto
  have "\<exists>s. generateColorScale A hex = Inr s \<and> hex_scale s"
  proof -
    from gen[OF assms(2)] obtain sc where sc: "ditto_scale A (Str hex) = Inr sc"
      "\<forall>k \<in> set spec_shade_keys. map_of sc k \<noteq> None" by blast
    show ?thesis
      using hex_scale_scaleToHexMap[OF fmt sc(2)] by (simp add: generateColorScale_def sc)
  qed
  moreover have "\<exists>s. generateNeutralScale A hex = Inr s \<and> hex_scale s"
    using seed by (simp add: generateNeutralScale_def p)
  moreover have "generateSecondaryScale A hex scheme = Inr None
           \<or> (\<exists>s. generateSecondaryScale A hex scheme = Inr (Some s) \<and> hex_scale s)"
  proof (cases "scheme = ''single''")
    case True
    then show ?thesis by (simp add: generateSecondaryScale_def)
  next
    case False
    obtain col where "generateSecondaryScale A hex scheme =
        (case ditto_scale A (formatHex A (Some col)) of
           Inl e \<Rightarrow> Inl e | Inr sc \<Rightarrow> Inr (Some (scaleToHexMap A sc)))"
      using False by (simp add: generateSecondaryScale_def p Let_def)
    moreover from seed[of col] obtain s where
      "(case ditto_scale A (formatHex A (Some col)) of
          Inl e \<Rightarrow> Inl e | Inr sc \<Rightarrow> Inr (scaleToHexMap A sc)) = Inr s" "hex_scale s" by blast
    ultimately show ?thesis by (auto split: sum.splits)
  qed
  ultimately show ?thesis by blast
qed

theorem scales_have_fixed_keys_witness:
  "adapter_ok sample_adapter \<and> is_hex6 ''#6366f1''
   \<and> (\<exists>s. generateColorScale sample_adapter ''#6366f1'' = Inr s \<and> length s = 11
          \<and> keys s = [''50'', ''100'', ''200'', ''300'', ''400'', ''500'', ''600'', ''700'',
                      ''800'', ''900'', ''950''])
   \<and> (\<exists>s. generateNeutralScale sample_adapter ''#6366f1'' = Inr s \<and> length s = 11
          \<and> keys s = [''50'', ''100'', ''200'', ''300'', ''400'', ''500'', ''600'', ''700'',
                      ''800'', ''900'', ''950''])
   \<and> (\<exists>s. generateSecondaryScale sample_adapter ''#6366f1'' ''analogous'' = Inr (Some s)
          \<and> length s = 11
          \<and> keys s = [''50'', ''100'', ''200'', ''300'', ''400'', ''500'', ''600'', ''700'',
                      ''800'', ''900'', ''950''])"
proof -
  have "generateSecondaryScale sample_adapter ''#6366f1'' ''analogous'' \<noteq> Inr None"
    by (simp add: generateSecondaryScale_def sample_adapter_def is_hex6_samples)
  with scales_have_fixed_keys[OF adapter_ok_sample is_hex6_samples(1), of "''analogous''"]
    adapter_ok_sample is_hex6_samples(1)
  show ?thesis
    by (auto simp: hex_scale_def)
qed

text \<open>
  Claim C9: \<open>contrastRatio(a, b)\<close> equals \<open>contrastRatio(b, a)\<close> for every pair of
  strings, so in particular for every pair of hex colours.
\<close>

theorem contrastRatio_symmetric: "contrastRatio a b = contrastRatio b a"
proof -
  have "num_op max (relativeLuminance a) (relativeLuminance b)
        = num_op max (relativeLuminance b) (relativeLuminance a)"
    by (rule num_op_commute) (simp add: max.commute)
  moreover have "num_op min (relativeLuminance a) (relativeLuminance b)
        = num_op min (relativeLuminance b) (relativeLuminance a)"
    by (rule num_op_commute) (simp add: min.commute)
  ultimately show ?thesis
    unfolding contrastRatio_def Let_def by (rule arg_cong2)
qed

text \<open>
  Claim C10: every entry that \<open>checkWCAG\<close> returns belongs to one of the audited pairs.
  With \<open>r\<close> the double that the contrast call returned for the pair, its \<open>pass\<close> flag is
  \<open>r >= 4.5\<close>, on the unrounded \<open>r\<close>, and its \<open>ratio\<close> is \<open>Math.round(r * 100) / 100\<close>, the
  product and the quotient rounded to doubles. So a pair whose \<open>r\<close> lies in
  \<open>[4.495, 4.5)\<close> is reported with the ratio \<open>4.5\<close> and does not pass.
\<close>

theorem checkWCAG_pass_unrounded:
  assumes "checkWCAG cr tokens = Inr w" and "(k, e) \<in> set w"
  shows "\<exists>fg bg hex1 hex2. (fg, bg) \<in> set (pairs tokens) \<and> k = fg @ ''/'' @ bg
           \<and> obj_get tokens fg = Str hex1 \<and> obj_get tokens bg = Str hex2
           \<and> (case cr hex1 hex2 of
                 NaN \<Rightarrow> ratio e = NaN \<and> \<not> pass e
               | Num r \<Rightarrow>
                   ratio e = Num (round64 (of_int \<lfloor>round64 (r * 100) + 1 / 2\<rfloor> / 100))
                   \<and> pass e = (4.5 \<le> r)
                   \<and> (4.495 \<le> r \<and> r < 4.5 \<longrightarrow> ratio e = Num 4.5 \<and> \<not> pass e))"
proof -
  from wcag_loop_entries[OF assms(1)[unfolded checkWCAG_def] assms(2)]
  obtain fg bg hex1 hex2 where a: "(fg, bg) \<in> set (pairs tokens)" "k = fg @ ''/'' @ bg"
    "obj_get tokens fg = Str hex1" "obj_get tokens bg = Str hex2"
    and e: "e = entry_of (cr hex1 hex2)"
    by auto
  have "case cr hex1 hex2 of
          NaN \<Rightarrow> ratio e = NaN \<and> \<not> pass e
        | Num r \<Rightarrow>
            ratio e = Num (round64 (of_int \<lfloor>round64 (r * 100) + 1 / 2\<rfloor> / 100))
            \<and> pass e = (4.5 \<le> r)
            \<and> (4.495 \<le> r \<and> r < 4.5 \<longrightarrow> ratio e = Num 4.5 \<and> \<not> pass e)"
  proof (cases "cr hex1 hex2")
    case NaN
    then show ?thesis by (simp add: e entry_of_NaN)
  next
    case (Num r)
    have "ratio e = Num (round64 (of_int \<lfloor>round64 (r * 100) + 1 / 2\<rfloor> / 100))"
      "pass e = (4.5 \<le> r)"
      by (simp_all add: e Num entry_of_Num)
    moreover have "ratio e = Num 4.5 \<and> \<not> pass e" if "4.495 \<le> r" and "r < 4.5"
      using entry_of_near_threshold[OF that] by (simp add: e Num)
    ultimately show ?thesis by (simp add: Num)
  qed
  with a show ?thesis by blast
qed

theorem checkWCAG_pass_unrounded_witness:
  "\<exists>w e. checkWCAG contrastRatio sample_tokens_light = Inr w \<and> (''text/bg'', e) \<in> set w
         \<and> ratio e = Num 4.5 \<and> \<not> pass e"
proof -
  let ?e = "entry_of (contrastRatio ''#ef0000'' ''#ffffff'')"
  have g: "obj_get sample_tokens_light ''text'' = Str ''#ef0000''"
    "obj_get sample_tokens_light ''bg'' = Str ''#ffffff''"
    "obj_get sample_tokens_light ''surface'' = Str ''#ffffff''"
    "obj_get sample_tokens_light ''text-muted'' = Str ''#ef0000''"
    "obj_get sample_tokens_light ''primary'' = Str ''#ef0000''"
    "\<not> truthy (obj_get sample_tokens_light ''primary-text'')"
    by (simp_all add: sample_tokens_light_def obj_get_def)
  note w = checkWCAG_six[OF g, of contrastRatio]
  have mem: "(''text/bg'', ?e) \<in> set [(''text/bg'', ?e), (''text/surface'', ?e),
          (''text-muted/bg'', ?e), (''text-muted/surface'', ?e),
          (''primary/bg'', ?e), (''primary/surface'', ?e)]"
    by simp
  from checkWCAG_pass_unrounded[OF w mem]
  obtain fg bg hex1 hex2 where a: "(fg, bg) \<in> set (pairs sample_tokens_light)"
    "obj_get sample_tokens_light fg = Str hex1" "obj_get sample_tokens_light bg = Str hex2"
    and c: "case contrastRatio hex1 hex2 of
              NaN \<Rightarrow> ratio ?e = NaN \<and> \<not> pass ?e
            | Num r \<Rightarrow>
                ratio ?e = Num (round64 (of_int \<lfloor>round64 (r * 100) + 1 / 2\<rfloor> / 100))
                \<and> pass ?e = (4.5 \<le> r)
                \<and> (4.495 \<le> r \<and> r < 4.5 \<longrightarrow> ratio ?e = Num 4.5 \<and> \<not> pass ?e)"
    by blast
  from a(1) g(6) have "fg \<in> {''text'', ''text-muted'', ''primary''}" "bg \<in> {''bg'', ''surface''}"
    by (auto simp: pairs_def)
  with a(2,3) g have "hex1 = ''#ef0000''" "hex2 = ''#ffffff''"
    by auto
  with c contrast_ef0000_white have "ratio ?e = Num 4.5 \<and> \<not> pass ?e"
    by auto
  with w mem show ?thesis by blast
qed

end
